theory Spec2Isabelle
  imports Complex_Main "HOL-Library.Sublist" "HOL-Library.AList"
begin

section \<open>Strings\<close>

text \<open>
  Python strings are modelled as lists of 8-bit characters, read as the code points
  U+0000 to U+00FF. On that range the classes below are the ones Python uses:
  \<^verbatim>\<open>str.isspace\<close> (also what \<^verbatim>\<open>str.strip()\<close> removes and what \<^verbatim>\<open>\s\<close> matches in a
  \<^verbatim>\<open>str\<close> pattern) and the word characters of \<^verbatim>\<open>\w\<close> and \<^verbatim>\<open>\b\<close> (alphanumerics and the
  underscore). A string with a code point above U+00FF is not a value of this type:
  whatever is proved here for every string is proved for the strings over U+0000 to
  U+00FF, and says nothing about the others.
\<close>

definition code :: "char \<Rightarrow> int" where
  "code c = of_char c"

definition isspace :: "char \<Rightarrow> bool" where
  "isspace c = ((9 \<le> code c \<and> code c \<le> 13) \<or> (28 \<le> code c \<and> code c \<le> 32)
                \<or> code c = 133 \<or> code c = 160)"

definition isupper_ascii :: "char \<Rightarrow> bool" where
  "isupper_ascii c = (65 \<le> code c \<and> code c \<le> 90)"

definition isword :: "char \<Rightarrow> bool" where
  "isword c = ((48 \<le> code c \<and> code c \<le> 57) \<or> (65 \<le> code c \<and> code c \<le> 90)
               \<or> code c = 95 \<or> (97 \<le> code c \<and> code c \<le> 122)
               \<or> code c = 170 \<or> code c = 178 \<or> code c = 179 \<or> code c = 181
               \<or> code c = 185 \<or> code c = 186 \<or> (188 \<le> code c \<and> code c \<le> 190)
               \<or> (192 \<le> code c \<and> code c \<le> 214) \<or> (216 \<le> code c \<and> code c \<le> 246)
               \<or> (248 \<le> code c \<and> code c \<le> 255))"

text \<open>
  \<^verbatim>\<open>str.lower()\<close> on one character: the ASCII capitals and the Latin-1 capitals
  U+00C0 to U+00DE (without the multiplication sign U+00D7) move up by 32.
\<close>

definition lower :: "char \<Rightarrow> char" where
  "lower c = (if isupper_ascii c \<or> (192 \<le> code c \<and> code c \<le> 222 \<and> code c \<noteq> 215)
              then char_of (code c + 32) else c)"

definition lstrip :: "string \<Rightarrow> string" where
  "lstrip s = dropWhile isspace s"

definition rstrip :: "string \<Rightarrow> string" where
  "rstrip s = rev (dropWhile isspace (rev s))"

text \<open>\<^verbatim>\<open>s.strip()\<close>\<close>

definition strip :: "string \<Rightarrow> string" where
  "strip s = rstrip (lstrip s)"

text \<open>\<^verbatim>\<open>s.rstrip(";")\<close>: every trailing semicolon goes, not only the last one.\<close>

definition rstrip_semicolons :: "string \<Rightarrow> string" where
  "rstrip_semicolons s = rev (dropWhile (\<lambda>c. c = CHR '';'') (rev s))"

section \<open>Regular expressions\<close>

text \<open>
  The source's patterns use literals, \<^verbatim>\<open>.?\<close>, \<^verbatim>\<open>\b\<close>, \<^verbatim>\<open>\s*\<close> and top-level
  alternation. A pattern is a list of alternatives, each a sequence of atoms. Every
  pattern with letters is compiled with \<^verbatim>\<open>re.IGNORECASE\<close>, so a literal is compared up
  to case. On U+0000 to U+00FF that is equality of the lower-cased characters; beyond
  that range Python also lets U+0130 and U+0131 match the letter \<^verbatim>\<open>i\<close>, U+017F the letter
  \<^verbatim>\<open>s\<close> and U+212A the letter \<^verbatim>\<open>k\<close>, which no string of the model contains. The matcher
  carries the character before the current position, which
  \<^verbatim>\<open>\b\<close> needs, and tries the alternatives of \<^verbatim>\<open>.?\<close> and \<^verbatim>\<open>\s*\<close> in the order of
  a backtracking matcher: the longer match first.
\<close>

datatype atom =
    Ch char
  | AnyOpt
  | WordB
  | Spaces

definition lits :: "string \<Rightarrow> atom list" where
  "lits s = map Ch s"

definition opt_isword :: "char option \<Rightarrow> bool" where
  "opt_isword p = (case p of None \<Rightarrow> False | Some c \<Rightarrow> isword c)"

text \<open>\<^verbatim>\<open>\b\<close>: exactly one of the two neighbours is a word character.\<close>

definition word_boundary :: "char option \<Rightarrow> string \<Rightarrow> bool" where
  "word_boundary prev s =
     (opt_isword prev \<noteq> (case s of [] \<Rightarrow> False | x # _ \<Rightarrow> isword x))"

fun rx_match :: "atom list \<Rightarrow> char option \<Rightarrow> string \<Rightarrow> bool" where
  "rx_match [] prev s = True"
| "rx_match (Ch c # p) prev [] = False"
| "rx_match (Ch c # p) prev (x # s) =
     (if lower x = lower c then rx_match p (Some x) s else False)"
| "rx_match (AnyOpt # p) prev [] = rx_match p prev []"
| "rx_match (AnyOpt # p) prev (x # s) =
     (if x = CHR 0x0A then rx_match p prev (x # s)
      else if rx_match p (Some x) s then True
      else rx_match p prev (x # s))"
| "rx_match (WordB # p) prev s =
     (if word_boundary prev s then rx_match p prev s else False)"
| "rx_match (Spaces # p) prev [] = rx_match p prev []"
| "rx_match (Spaces # p) prev (x # s) =
     (if isspace x then
        (if rx_match (Spaces # p) (Some x) s then True else rx_match p prev (x # s))
      else rx_match p prev (x # s))"

text \<open>Some alternative of the pattern matches at the current position.\<close>

fun any_alt :: "atom list list \<Rightarrow> char option \<Rightarrow> string \<Rightarrow> bool" where
  "any_alt [] prev s = False"
| "any_alt (p # ps) prev s = (if rx_match p prev s then True else any_alt ps prev s)"

text \<open>\<^verbatim>\<open>pattern.match(s)\<close> as a truth value: a match at position 0.\<close>

definition re_match :: "atom list list \<Rightarrow> string \<Rightarrow> bool" where
  "re_match alts s = any_alt alts None s"

fun search_from :: "atom list list \<Rightarrow> char option \<Rightarrow> string \<Rightarrow> bool" where
  "search_from alts prev [] = any_alt alts prev []"
| "search_from alts prev (x # s) =
     (if any_alt alts prev (x # s) then True else search_from alts (Some x) s)"

text \<open>\<^verbatim>\<open>pattern.search(s)\<close> as a truth value: a match at some position.\<close>

definition re_search :: "atom list list \<Rightarrow> string \<Rightarrow> bool" where
  "re_search alts s = search_from alts None s"

section \<open>The SQL validator (\<^verbatim>\<open>app/agents/sql_validator.py\<close>)\<close>

text \<open>
  \<^verbatim>\<open>SQLValidationError\<close> carries a message. Each place that raises it is tagged here
  with the failure kind of the specification it stands for; the message is the
  source's.
\<close>

datatype failure_kind =
    EmptyStatement
  | WrongLeadingKeyword
  | BlockedKeyword
  | CommentInjection
  | CatalogProbe
  | UnbalancedParentheses
  | MultipleStatements

datatype validation_error = SQLValidationError (kind: failure_kind) (message: string)

text \<open>\<^verbatim>\<open>\bKW\b\<close>\<close>

definition whole_word :: "string \<Rightarrow> atom list list" where
  "whole_word kw = [WordB # lits kw @ [WordB]]"

definition BLOCKED_PATTERNS :: "(atom list list \<times> failure_kind \<times> string) list" where
  "BLOCKED_PATTERNS =
    [(whole_word ''DROP'', BlockedKeyword, ''DROP statements are not allowed''),
     (whole_word ''ALTER'', BlockedKeyword, ''ALTER statements are not allowed''),
     (whole_word ''TRUNCATE'', BlockedKeyword, ''TRUNCATE statements are not allowed''),
     (whole_word ''DELETE'', BlockedKeyword, ''DELETE statements are not allowed''),
     (whole_word ''INSERT'', BlockedKeyword, ''INSERT statements are not allowed''),
     (whole_word ''UPDATE'', BlockedKeyword, ''UPDATE statements are not allowed''),
     (whole_word ''CREATE'', BlockedKeyword, ''CREATE statements are not allowed''),
     (whole_word ''GRANT'', BlockedKeyword, ''GRANT statements are not allowed''),
     (whole_word ''REVOKE'', BlockedKeyword, ''REVOKE statements are not allowed''),
     (whole_word ''EXECUTE'', BlockedKeyword, ''EXECUTE statements are not allowed''),
     (whole_word ''CALL'', BlockedKeyword, ''CALL statements are not allowed''),
     ([lits ''--''], CommentInjection, ''SQL comments (--) are not allowed''),
     ([lits ''/*''], CommentInjection, ''Block comments (/*) are not allowed''),
     ([WordB # lits ''pg_''], CatalogProbe,
        ''Access to pg_ system catalogs is not allowed''),
     (whole_word ''information_schema'', CatalogProbe,
        ''Access to information_schema is not allowed'')]"

text \<open>\<^verbatim>\<open>^\s*(SELECT|WITH)\b\<close>, the alternation distributed over the sequence.\<close>

definition ALLOWED_START :: "atom list list" where
  "ALLOWED_START =
    [Spaces # lits ''SELECT'' @ [WordB], Spaces # lits ''WITH'' @ [WordB]]"

text \<open>The loop over \<^verbatim>\<open>_BLOCKED_PATTERNS\<close>: the first pattern found decides.\<close>

fun first_blocked ::
  "(atom list list \<times> failure_kind \<times> string) list \<Rightarrow> string \<Rightarrow> validation_error option" where
  "first_blocked [] stripped = None"
| "first_blocked ((pattern, k, msg) # ps) stripped =
     (if re_search pattern stripped then Some (SQLValidationError k msg)
      else first_blocked ps stripped)"

text \<open>
  The parenthesis loop: \<^verbatim>\<open>depth\<close> is an unbounded Python integer; the loop raises as
  soon as it is negative, and the check after the loop wants it to be zero.
\<close>

fun paren_scan :: "int \<Rightarrow> string \<Rightarrow> bool" where
  "paren_scan depth [] = (depth = 0)"
| "paren_scan depth (ch # s) =
     (let depth' = (if ch = CHR ''('' then depth + 1
                    else if ch = CHR '')'' then depth - 1 else depth)
      in if depth' < 0 then False else paren_scan depth' s)"

definition balanced :: "string \<Rightarrow> bool" where
  "balanced stripped = paren_scan 0 stripped"

definition without_trailing :: "string \<Rightarrow> string" where
  "without_trailing stripped = strip (rstrip_semicolons stripped)"

definition validate_sql :: "string \<Rightarrow> validation_error + string" where
  "validate_sql sql =
    (if sql = [] \<or> strip sql = [] then
       Inl (SQLValidationError EmptyStatement ''Empty SQL statement.'')
     else let stripped = strip sql in
       if \<not> re_match ALLOWED_START stripped then
         Inl (SQLValidationError WrongLeadingKeyword
           ''Only SELECT queries are allowed. Your query must start with SELECT or WITH.'')
       else case first_blocked BLOCKED_PATTERNS stripped of
         Some e \<Rightarrow> Inl e
       | None \<Rightarrow>
           if \<not> balanced stripped then
             Inl (SQLValidationError UnbalancedParentheses ''Unbalanced parentheses in SQL.'')
           else if CHR '';'' \<in> set (without_trailing stripped) then
             Inl (SQLValidationError MultipleStatements
               ''Multiple SQL statements are not allowed. Only single queries are permitted.'')
           else Inr sql)"

section \<open>Exceptions and collaborator calls\<close>

text \<open>
  A Python exception raised by a collaborator: whether it is an instance of
  \<^verbatim>\<open>ValueError\<close> (what \<^verbatim>\<open>except ValueError\<close> tests), the name of its class and
  \<^verbatim>\<open>str(e)\<close>. Every exception modelled is an instance of \<^verbatim>\<open>Exception\<close>; the cancellation
  of a request, which is not, stays outside the model.
\<close>

datatype pyexc = PyExc (is_ValueError: bool) (type_name: string) (message_text: string)

text \<open>
  The calls that leave the process, and the two gates, are logged in the order in
  which they happen.
\<close>

datatype event =
    LLMClassify string
  | CheckIntent string bool
  | RetrieveSchema string
  | GenerateSQL string
  | ValidateSQL string bool
  | Execute string

section \<open>The intent guard (\<^verbatim>\<open>app/agents/intent_guard.py\<close>)\<close>

definition REJECTION_MESSAGE :: string where
  "REJECTION_MESSAGE = ''Please enter a query related to the system'' @ [CHR 0x27] @
     ''s database (employees, inventory, production, or sales).''"

definition DOMAIN_KEYWORDS :: "atom list list" where
  "DOMAIN_KEYWORDS =
    [lits ''employee'', lits ''staff'', lits ''worker'', lits ''salary'', lits ''salaries'',
     lits ''hire'', lits ''designation'', lits ''manager'', lits ''department'', lits ''dept'',
     lits ''attendance'', lits ''present'', lits ''absent'', lits ''late'',
     lits ''check'' @ AnyOpt # lits ''in'', lits ''check'' @ AnyOpt # lits ''out'',
     lits ''leave'', lits ''sick'', lits ''casual'', lits ''annual'', lits ''maternity'',
     lits ''half'' @ AnyOpt # lits ''day'', lits ''hours'' @ AnyOpt # lits ''worked'',
     lits ''inventory'', lits ''stock'', lits ''material'',
     lits ''raw'' @ AnyOpt # lits ''material'', lits ''fabric'', lits ''supplier'',
     lits ''reorder'', lits ''quantity'',
     lits ''cost'' @ AnyOpt # lits ''per'' @ AnyOpt # lits ''unit'',
     lits ''product'', lits ''production'', lits ''manufacturing'', lits ''order'',
     lits ''target'' @ AnyOpt # lits ''quantity'', lits ''completed'', lits ''stitching'',
     lits ''cutting'', lits ''product'' @ AnyOpt # lits ''code'', lits ''category'',
     lits ''sale'', lits ''sales'', lits ''revenue'', lits ''customer'',
     lits ''total'' @ AnyOpt # lits ''amount'', lits ''selling'' @ AnyOpt # lits ''price'',
     lits ''count'', lits ''average'', lits ''sum'', lits ''total'', lits ''maximum'',
     lits ''minimum'', lits ''highest'', lits ''lowest'', lits ''top'', lits ''bottom'',
     lits ''list'', lits ''show'', lits ''display'', lits ''report'', lits ''how many'',
     lits ''which'']"

text \<open>\<^verbatim>\<open>re.compile("|".join(_DOMAIN_KEYWORDS), re.IGNORECASE)\<close>\<close>

definition DOMAIN_PATTERN :: "atom list list" where
  "DOMAIN_PATTERN = DOMAIN_KEYWORDS"

record IntentResult =
  is_in_domain :: bool
  rejection_message :: "string option"

text \<open>
  \<^verbatim>\<open>_llm_classify\<close>: the parameter \<open>chat\<close> is the reply of \<^verbatim>\<open>chat_completion\<close> to the
  classification prompt for a query, or the exception it raises.
\<close>

definition llm_classify :: "(string \<Rightarrow> pyexc + string) \<Rightarrow> string \<Rightarrow> pyexc + bool" where
  "llm_classify chat query =
     (case chat query of
        Inl e \<Rightarrow> Inl e
      | Inr response \<Rightarrow> Inr (prefix ''yes'' (map lower (strip response))))"

text \<open>The result of \<^verbatim>\<open>check_intent\<close> and the classifier calls it made.\<close>

definition check_intent ::
  "(string \<Rightarrow> pyexc + string) \<Rightarrow> string \<Rightarrow> IntentResult \<times> event list" where
  "check_intent chat query =
     (if re_search DOMAIN_PATTERN query then
        (\<lparr>is_in_domain = True, rejection_message = None\<rparr>, [])
      else case llm_classify chat query of
        Inr True \<Rightarrow> (\<lparr>is_in_domain = True, rejection_message = None\<rparr>, [LLMClassify query])
      | Inr False \<Rightarrow>
          (\<lparr>is_in_domain = False, rejection_message = Some REJECTION_MESSAGE\<rparr>,
           [LLMClassify query])
      | Inl e \<Rightarrow>
          (\<lparr>is_in_domain = False, rejection_message = Some REJECTION_MESSAGE\<rparr>,
           [LLMClassify query]))"

section \<open>The SQL agent (\<^verbatim>\<open>app/agents/sql_agent.py\<close>)\<close>

text \<open>
  \<^verbatim>\<open>re.sub(r"^```(?:sql)?\s*", "", raw, flags=re.IGNORECASE)\<close>: the pattern is anchored
  at the start, so there is at most one match; it takes the fence, then \<^verbatim>\<open>sql\<close> in any
  case if it is there, then all the white space that follows.
\<close>

definition ci_prefix :: "string \<Rightarrow> string \<Rightarrow> bool" where
  "ci_prefix kw s = prefix (map lower kw) (map lower s)"

definition sub_fence_open :: "string \<Rightarrow> string" where
  "sub_fence_open raw =
     (if prefix ''```'' raw then
        let r1 = drop 3 raw;
            r2 = (if ci_prefix ''sql'' r1 then drop 3 r1 else r1)
        in dropWhile isspace r2
      else raw)"

text \<open>
  \<^verbatim>\<open>re.sub(r"\s*```$", "", cleaned)\<close>: \<^verbatim>\<open>$\<close> holds at the end of the string and before a
  newline that is its last character, so the fence is the last three characters or
  the three before a final newline; the leftmost match takes all the white space
  before the fence with it. The final newline, if any, stays.
\<close>

definition sub_fence_close :: "string \<Rightarrow> string" where
  "sub_fence_close cleaned =
     (let r = rev cleaned in
      if prefix ''```'' r then rev (dropWhile isspace (drop 3 r))
      else if prefix (CHR 0x0A # ''```'') r then rev (dropWhile isspace (drop 4 r)) @ [CHR 0x0A]
      else cleaned)"

definition clean_sql :: "string \<Rightarrow> string" where
  "clean_sql raw =
     (let cleaned = sub_fence_open raw;
          cleaned = sub_fence_close cleaned;
          cleaned = strip cleaned;
          cleaned = strip (rstrip_semicolons cleaned)
      in cleaned)"

text \<open>
  \<^verbatim>\<open>generate_sql\<close>: the parameter \<open>raw\<close> is what \<^verbatim>\<open>chat_completion\<close> returned for the
  prompt built from the question and the schema, or the exception raised on the way.
  The dash of the source's message is typeset in ASCII here.
\<close>

definition generate_sql :: "pyexc + string \<Rightarrow> pyexc + string" where
  "generate_sql raw =
     (case raw of
        Inl e \<Rightarrow> Inl e
      | Inr r \<Rightarrow>
          let sql = clean_sql r in
          if sql = [] then
            Inl (PyExc True ''ValueError''
                  ''SQL generation failed - LLM returned empty response.'')
          else Inr sql)"

section \<open>Schema retrieval (\<^verbatim>\<open>app/schema/schema_retriever.py\<close>)\<close>

text \<open>
  A row of the column query and a schema snippet (the dictionary appended to
  \<^verbatim>\<open>snippets\<close>; its key \<^verbatim>\<open>columns\<close> is the field \<open>table_columns\<close>). The dictionary
  \<^verbatim>\<open>column_details\<close> is kept as its items in insertion order.
\<close>

record column_row =
  column_name :: string
  data_type :: string
  is_nullable :: string
  column_default :: "string option"

record snippet =
  table :: string
  description :: string
  table_columns :: "string list"
  column_details :: "(string \<times> string) list"
  relationships :: "string list"
  similarity :: real

text \<open>
  The catalog, as the two queries see it: the rows of the table query and, for a table
  name, the rows of the column query; either may raise.
\<close>

record catalog =
  tables_result :: "pyexc + string list"
  columns_result :: "string \<Rightarrow> pyexc + column_row list"

text \<open>\<^verbatim>\<open>sep.join(parts)\<close>\<close>

fun join :: "string \<Rightarrow> string list \<Rightarrow> string" where
  "join sep [] = []"
| "join sep [x] = x"
| "join sep (x # y # ys) = x @ sep @ join sep (y # ys)"

definition detail_parts :: "column_row \<Rightarrow> string list" where
  "detail_parts row =
     [data_type row]
     @ (if is_nullable row = ''NO'' then [''NOT NULL''] else [])
     @ (case column_default row of
          None \<Rightarrow> []
        | Some d \<Rightarrow> if d \<noteq> [] then [''DEFAULT '' @ d] else [])"

text \<open>The loop over the rows of the column query.\<close>

fun scan_columns ::
  "column_row list \<Rightarrow> string list \<times> (string \<times> string) list
     \<Rightarrow> string list \<times> (string \<times> string) list" where
  "scan_columns [] acc = acc"
| "scan_columns (row # rows) (cols, details) =
     scan_columns rows
       (cols @ [column_name row],
        AList.update (column_name row) (join '' '' (detail_parts row)) details)"

definition make_snippet :: "string \<Rightarrow> column_row list \<Rightarrow> snippet" where
  "make_snippet table_name rows =
     (let (cols, details) = scan_columns rows ([], []) in
      \<lparr>table = table_name, description = ''Table: '' @ table_name,
       table_columns = cols, column_details = details,
       relationships = [], similarity = 1\<rparr>)"

text \<open>The loop over the tables: the first query that raises ends it.\<close>

fun scan_tables ::
  "(string \<Rightarrow> pyexc + column_row list) \<Rightarrow> string list \<Rightarrow> snippet list
     \<Rightarrow> pyexc + snippet list" where
  "scan_tables cq [] snippets = Inr snippets"
| "scan_tables cq (table_name # ts) snippets =
     (case cq table_name of
        Inl e \<Rightarrow> Inl e
      | Inr rows \<Rightarrow> scan_tables cq ts (snippets @ [make_snippet table_name rows]))"

text \<open>
  \<^verbatim>\<open>retrieve_relevant_schema(query, top_k, min_similarity)\<close>: the body reads none of
  its three parameters.
\<close>

definition retrieve_relevant_schema ::
  "catalog \<Rightarrow> string \<Rightarrow> int \<Rightarrow> real \<Rightarrow> pyexc + snippet list" where
  "retrieve_relevant_schema cat query top_k min_similarity =
     (case tables_result cat of
        Inl e \<Rightarrow> Inl e
      | Inr tables \<Rightarrow> scan_tables (columns_result cat) tables [])"

section \<open>The executor (\<^verbatim>\<open>app/db/executor.py\<close>)\<close>

text \<open>
  The dictionary returned by \<^verbatim>\<open>execute_readonly_query\<close>; its keys \<^verbatim>\<open>columns\<close>,
  \<^verbatim>\<open>row_count\<close> and \<^verbatim>\<open>execution_time\<close> are the fields with prefix \<open>result\<close>. A cell of
  a row is its text.
\<close>

record exec_result =
  rows :: "(string \<times> string) list list"
  result_columns :: "string list"
  result_row_count :: nat
  result_execution_time :: real

text \<open>\<^verbatim>\<open>dict(pairs)\<close>: a key seen again keeps its place and takes the later value.\<close>

definition dict :: "(string \<times> string) list \<Rightarrow> (string \<times> string) list" where
  "dict pairs = fold (\<lambda>(k, v) d. AList.update k v d) pairs []"

text \<open>
  The parameter \<open>run\<close> is the database: for a statement, the column names, the raw
  rows and the rounded elapsed time, or the exception raised.
\<close>

definition execute_readonly_query ::
  "(string \<Rightarrow> pyexc + string list \<times> string list list \<times> real) \<Rightarrow> string
     \<Rightarrow> pyexc + exec_result" where
  "execute_readonly_query run sql =
     (case run sql of
        Inl e \<Rightarrow> Inl e
      | Inr (cols, raw_rows, elapsed) \<Rightarrow>
          let rs = map (\<lambda>row. dict (zip cols row)) raw_rows in
          Inr \<lparr>rows = rs, result_columns = cols, result_row_count = length rs,
               result_execution_time = elapsed\<rparr>)"

section \<open>The orchestrator (\<^verbatim>\<open>app/api/chat.py\<close>)\<close>

record QueryRequest =
  user_id :: string
  session_id :: string
  query :: string

text \<open>
  \<^verbatim>\<open>QueryResponse\<close> and \<^verbatim>\<open>ErrorResponse\<close> have the same fields; the field \<^verbatim>\<open>id\<close> is
  \<open>response_id\<close> here.
\<close>

record response =
  response_id :: string
  sql :: string
  data :: "(string \<times> string) list list"
  columns :: "string list"
  row_count :: nat
  execution_time :: real
  explanation :: string
  personalization_used :: bool
  status :: string
  error :: "string option"

text \<open>\<^verbatim>\<open>ErrorResponse(id=..., sql=..., error=..., explanation=...)\<close> with its defaults.\<close>

definition ErrorResponse :: "string \<Rightarrow> string \<Rightarrow> string \<Rightarrow> string \<Rightarrow> response" where
  "ErrorResponse rid s err expl =
     \<lparr>response_id = rid, sql = s, data = [], columns = [], row_count = 0,
      execution_time = 0, explanation = expl, personalization_used = False,
      status = ''error'', error = Some err\<rparr>"

text \<open>The collaborators of one request.\<close>

record env =
  classifier :: "string \<Rightarrow> pyexc + string"
  schema_catalog :: catalog
  generator :: "string \<Rightarrow> snippet list \<Rightarrow> pyexc + string"
  database :: "string \<Rightarrow> pyexc + string list \<times> string list list \<times> real"

text \<open>\<^verbatim>\<open>str(n)\<close> for a natural number.\<close>

fun str_nat :: "nat \<Rightarrow> string" where
  "str_nat n =
     (if n < 10 then [char_of (48 + n)]
      else str_nat (n div 10) @ [char_of (48 + n mod 10)])"

definition explain :: "nat \<Rightarrow> string" where
  "explain n =
     (if n = 0 then ''No data found matching your query.''
      else if n = 1 then ''Found 1 matching result.''
      else ''Found '' @ str_nat n @ '' matching results.'')"

text \<open>
  \<^verbatim>\<open>handle_query\<close>: the parameter \<open>request_id\<close> is the fresh UUID. The result is the
  log of the calls made and either the response returned or the exception that leaves
  the function.
\<close>

definition handle_query ::
  "env \<Rightarrow> string \<Rightarrow> QueryRequest \<Rightarrow> event list \<times> (pyexc + response)" where
  "handle_query e request_id request =
    (let q = strip (query request);
         (intent, calls) = check_intent (classifier e) q;
         log1 = calls @ [CheckIntent q (is_in_domain intent)]
     in
     if \<not> is_in_domain intent then
       (log1, Inr (ErrorResponse request_id []
          (case rejection_message intent of
             None \<Rightarrow> ''Query is not related to the system'' @ [CHR 0x27] @ ''s database.''
           | Some m \<Rightarrow> if m = [] then ''Query is not related to the system'' @ [CHR 0x27]
                          @ ''s database.'' else m)
          ''Please rephrase your query to ask about employees, inventory, production, or sales.''))
     else
       let log2 = log1 @ [RetrieveSchema q] in
       (case retrieve_relevant_schema (schema_catalog e) q 5 (3 / 10) of
         Inl ex \<Rightarrow>
           (log2, Inr (ErrorResponse request_id []
              (''Schema retrieval error: '' @ type_name ex @ '': '' @ take 200 (message_text ex))
              []))
       | Inr schema_snippets \<Rightarrow>
           if schema_snippets = [] then
             (log2, Inr (ErrorResponse request_id []
                ''Could not find relevant database tables for your query. Please rephrase.''
                ''Try asking about specific topics like employees, attendance, inventory, production, or sales.''))
           else
             let log3 = log2 @ [GenerateSQL q] in
             (case generate_sql (generator e q schema_snippets) of
               Inl ex \<Rightarrow>
                 if is_ValueError ex then
                   (log3, Inr (ErrorResponse request_id []
                      ''SQL generation failed. Please rephrase your question.''
                      ''Try to be more specific about what data you want to see.''))
                 else (log3, Inl ex)
             | Inr generated_sql \<Rightarrow>
                 (case validate_sql generated_sql of
                    Inl exc \<Rightarrow>
                      (log3 @ [ValidateSQL generated_sql False],
                       Inr (ErrorResponse request_id generated_sql
                         (''Generated SQL failed safety checks: '' @ message exc) []))
                  | Inr _ \<Rightarrow>
                      let log5 = log3 @ [ValidateSQL generated_sql True, Execute generated_sql] in
                      (case execute_readonly_query (database e) generated_sql of
                         Inl ex \<Rightarrow>
                           (log5, Inr (ErrorResponse request_id generated_sql
                              (''Query execution failed: '' @ take 200 (message_text ex))
                              ''There was an error executing your query. Please try rephrasing.''))
                       | Inr exec_result \<Rightarrow>
                           (log5, Inr
                              \<lparr>response_id = request_id, sql = generated_sql,
                               data = rows exec_result, columns = result_columns exec_result,
                               row_count = result_row_count exec_result,
                               execution_time = result_execution_time exec_result,
                               explanation = explain (result_row_count exec_result),
                               personalization_used = False,
                               status = ''success'', error = None\<rparr>))))))"

section \<open>Notions of the specification\<close>

text \<open>
  The failure kind of a validation verdict: \<open>None\<close> stands for an accepted statement.
\<close>

definition failure :: "string \<Rightarrow> failure_kind option" where
  "failure candidate =
     (case validate_sql candidate of Inl err \<Rightarrow> Some (kind err) | Inr _ \<Rightarrow> None)"



section \<open>Sample collaborators\<close>

text \<open>
  A catalog of six tables without columns, a catalog with the one table
  \<^verbatim>\<open>employees\<close>, and the collaborators of a request that goes through: the classifier
  says no, the generator answers with a fenced statement, the database returns one row.
\<close>

definition six_tables :: catalog where
  "six_tables =
     \<lparr>tables_result = Inr [''attendance'', ''departments'', ''employees'', ''products'',
                           ''sales'', ''suppliers''],
      columns_result = (\<lambda>t. Inr [])\<rparr>"

definition employees_catalog :: catalog where
  "employees_catalog =
     \<lparr>tables_result = Inr [''employees''],
      columns_result = (\<lambda>t. Inr
        [\<lparr>column_name = ''emp_id'', data_type = ''integer'', is_nullable = ''NO'',
          column_default = None\<rparr>,
         \<lparr>column_name = ''name'', data_type = ''text'', is_nullable = ''YES'',
          column_default = None\<rparr>])\<rparr>"

definition sample_env :: env where
  "sample_env =
     \<lparr>classifier = (\<lambda>q. Inr ''no''),
      schema_catalog = employees_catalog,
      generator = (\<lambda>q snippets. Inr ''SELECT 1;''),
      database = (\<lambda>statement. Inr ([''?column?''], [[''1'']], 0))\<rparr>"

definition sample_request :: QueryRequest where
  "sample_request = \<lparr>user_id = ''u1'', session_id = ''s1'', query = ''top''\<rparr>"

text \<open>The same collaborators with a generator whose call fails with a connection error.\<close>

definition unreachable_generator_env :: env where
  "unreachable_generator_env =
     sample_env\<lparr>generator :=
       (\<lambda>q snippets. Inl (PyExc False ''APIConnectionError'' ''Connection error.''))\<rparr>"

section \<open>The validator returns its argument\<close>

lemma validate_sql_accepts_unchanged:
  assumes "validate_sql s = Inr r"
  shows "r = s"
  using assms
  by (auto simp: validate_sql_def Let_def split: if_splits option.splits)

text \<open>
  Claim C9. Whenever \<^verbatim>\<open>validate_sql(s)\<close> returns instead of raising, what it returns is
  \<open>s\<close> itself: the validator is the identity on every statement it accepts and never
  rewrites, trims or normalises the text that goes on to execution.
\<close>

theorem validate_sql_identity_on_accepted:
  "validate_sql s = Inr r \<Longrightarrow> r = s"
  by (rule validate_sql_accepts_unchanged)

theorem validate_sql_identity_on_accepted_witness:
  "validate_sql '' SELECT 1; ''
     = Inr (projr (validate_sql '' SELECT 1; ''))
   \<and> projr (validate_sql '' SELECT 1; '')
     = '' SELECT 1; ''"
proof -
  have "validate_sql '' SELECT 1; ''
          = Inr '' SELECT 1; ''"
    by code_simp
  then have r: "validate_sql '' SELECT 1; ''
          = Inr (projr (validate_sql '' SELECT 1; ''))"
    by simp
  from validate_sql_identity_on_accepted [OF r] r show ?thesis by simp
qed

section \<open>The orchestrator's log\<close>

lemma check_intent_calls:
  "snd (check_intent chat q) = [] \<or> snd (check_intent chat q) = [LLMClassify q]"
  by (auto simp: check_intent_def split: sum.splits bool.splits)

lemma execute_logged_last:
  assumes "Execute s \<in> set (fst (handle_query e rid req))"
  shows "validate_sql s = Inr s
    \<and> is_in_domain (fst (check_intent (classifier e) (strip (query req))))
    \<and> (\<exists>pre. fst (handle_query e rid req) = pre @ [Execute s]
          \<and> ValidateSQL s True \<in> set pre
          \<and> CheckIntent (strip (query req)) True \<in> set pre
          \<and> Execute s \<notin> set pre)"
proof -
  obtain intent calls where
    ci: "check_intent (classifier e) (strip (query req)) = (intent, calls)"
    by (cases "check_intent (classifier e) (strip (query req))")
  have calls: "calls = [] \<or> calls = [LLMClassify (strip (query req))]"
    using ci check_intent_calls [of "classifier e" "strip (query req)"] by simp
  from assms ci calls show ?thesis
    apply (simp add: handle_query_def Let_def split: if_splits sum.splits prod.splits)
    apply (auto dest: validate_sql_accepts_unchanged)
    done
qed

lemma never_executed_unless_valid:
  assumes "validate_sql s \<noteq> Inr s"
  shows "Execute s \<notin> set (fst (handle_query e rid req))"
  using assms execute_logged_last by blast

lemma success_comes_from_executor:
  assumes "snd (handle_query e rid req) = Inr r" and "status r = ''success''"
  shows "Execute (sql r) \<in> set (fst (handle_query e rid req))
    \<and> (\<exists>res. execute_readonly_query (database e) (sql r) = Inr res
          \<and> data r = rows res \<and> columns r = result_columns res
          \<and> row_count r = result_row_count res
          \<and> execution_time r = result_execution_time res)"
proof -
  obtain intent calls where
    ci: "check_intent (classifier e) (strip (query req)) = (intent, calls)"
    by (cases "check_intent (classifier e) (strip (query req))")
  from assms ci show ?thesis
    by (auto simp: handle_query_def Let_def ErrorResponse_def
        split: if_splits sum.splits prod.splits)
qed

text \<open>
  Claim C1. In every run of \<^verbatim>\<open>handle_query\<close>, the executor is called with a statement
  only if \<^verbatim>\<open>validate_sql\<close> returned for that very statement and \<^verbatim>\<open>check_intent\<close>
  answered \<^verbatim>\<open>is_in_domain=True\<close> for the question, both earlier in the run; and a
  successful response carries the result of that one executor call on the statement
  it reports, so no execution result comes about any other way.
\<close>

theorem executor_only_after_both_gates:
  "(Execute s \<in> set (fst (handle_query e rid req)) \<longrightarrow>
      validate_sql s = Inr s
      \<and> is_in_domain (fst (check_intent (classifier e) (strip (query req))))
      \<and> (\<exists>pre. fst (handle_query e rid req) = pre @ [Execute s]
            \<and> ValidateSQL s True \<in> set pre
            \<and> CheckIntent (strip (query req)) True \<in> set pre
            \<and> Execute s \<notin> set pre))
   \<and> (snd (handle_query e rid req) = Inr r \<and> status r = ''success'' \<longrightarrow>
        Execute (sql r) \<in> set (fst (handle_query e rid req))
        \<and> (\<exists>res. execute_readonly_query (database e) (sql r) = Inr res
              \<and> data r = rows res \<and> columns r = result_columns res
              \<and> row_count r = result_row_count res
              \<and> execution_time r = result_execution_time res))"
  using execute_logged_last [of s e rid req] success_comes_from_executor [of e rid req r]
  by blast

theorem executor_only_after_both_gates_witness:
  "Execute ''SELECT 1'' \<in> set (fst (handle_query sample_env ''r1'' sample_request))
   \<and> validate_sql ''SELECT 1'' = Inr ''SELECT 1''
   \<and> is_in_domain (fst (check_intent (classifier sample_env) (strip (query sample_request))))
   \<and> (\<exists>r. snd (handle_query sample_env ''r1'' sample_request) = Inr r
          \<and> status r = ''success'' \<and> sql r = ''SELECT 1''
          \<and> execute_readonly_query (database sample_env) ''SELECT 1''
              = Inr \<lparr>rows = data r, result_columns = columns r,
                     result_row_count = row_count r,
                     result_execution_time = execution_time r\<rparr>)"
proof -
  let ?r = "\<lparr>response_id = ''r1'', sql = ''SELECT 1'', data = [[(''?column?'', ''1'')]],
             columns = [''?column?''], row_count = 1, execution_time = 0,
             explanation = ''Found 1 matching result.'', personalization_used = False,
             status = ''success'', error = None\<rparr>"
  have run: "handle_query sample_env ''r1'' sample_request =
      ([CheckIntent ''top'' True, RetrieveSchema ''top'', GenerateSQL ''top'',
        ValidateSQL ''SELECT 1'' True, Execute ''SELECT 1''], Inr ?r)"
    by code_simp
  have h1: "Execute ''SELECT 1'' \<in> set (fst (handle_query sample_env ''r1'' sample_request))"
    by (simp add: run)
  have h2: "snd (handle_query sample_env ''r1'' sample_request) = Inr ?r \<and> status ?r = ''success''"
    by (simp add: run)
  from executor_only_after_both_gates
    [of "''SELECT 1''" sample_env "''r1''" sample_request ?r] h1 h2
  show ?thesis by auto
qed

section \<open>Scenario C\<close>

text \<open>
  Claim C3 (as stated, refuted). For the candidate
  \<^verbatim>\<open>SELECT * FROM employees; DROP TABLE employees;\<close> the claim has the validator
  answer \<open>MultipleStatements\<close>. The scan of the blocked patterns comes before the
  single-statement check and finds \<^verbatim>\<open>DROP\<close>.
\<close>

theorem scenario_c_not_multiple_statements:
  "failure ''SELECT * FROM employees; DROP TABLE employees;'' \<noteq> Some MultipleStatements"
  by code_simp

text \<open>
  Claim C3 (amended). For that candidate \<^verbatim>\<open>validate_sql\<close> raises with the failure kind
  \<open>BlockedKeyword\<close> and the message of the \<^verbatim>\<open>DROP\<close> pattern, and whatever the
  collaborators do, neither the candidate nor what \<^verbatim>\<open>_clean_sql\<close> makes of it is ever
  handed to the executor.
\<close>

theorem scenario_c_blocked_keyword:
  "validate_sql ''SELECT * FROM employees; DROP TABLE employees;''
     = Inl (SQLValidationError BlockedKeyword ''DROP statements are not allowed'')
   \<and> Execute ''SELECT * FROM employees; DROP TABLE employees;''
       \<notin> set (fst (handle_query e rid req))
   \<and> Execute (clean_sql ''SELECT * FROM employees; DROP TABLE employees;'')
       \<notin> set (fst (handle_query e rid req))"
proof -
  have v: "validate_sql ''SELECT * FROM employees; DROP TABLE employees;''
     = Inl (SQLValidationError BlockedKeyword ''DROP statements are not allowed'')"
    by code_simp
  have c: "validate_sql (clean_sql ''SELECT * FROM employees; DROP TABLE employees;'')
     = Inl (SQLValidationError BlockedKeyword ''DROP statements are not allowed'')"
    by code_simp
  show ?thesis
    using v c never_executed_unless_valid
      [of "''SELECT * FROM employees; DROP TABLE employees;''" e rid req]
      never_executed_unless_valid
      [of "clean_sql ''SELECT * FROM employees; DROP TABLE employees;''" e rid req]
    by simp
qed

section \<open>The single-statement check\<close>

lemma dropWhile_keeps:
  "\<not> P x \<Longrightarrow> x \<in> set (dropWhile P xs) \<longleftrightarrow> x \<in> set xs"
  by (induction xs) auto

lemma semicolon_not_space: "\<not> isspace CHR '';''"
  by code_simp

lemma semicolon_in_strip: "CHR '';'' \<in> set (strip u) \<longleftrightarrow> CHR '';'' \<in> set u"
  using semicolon_not_space
  by (simp add: strip_def rstrip_def lstrip_def dropWhile_keeps)

lemma rstrip_semicolons_decomp:
  "\<exists>n. t = rstrip_semicolons t @ replicate n CHR '';''"
proof -
  let ?P = "\<lambda>c. c = CHR '';''"
  define tail where "tail = rev (takeWhile ?P (rev t))"
  have "rstrip_semicolons t @ tail = rev (takeWhile ?P (rev t) @ dropWhile ?P (rev t))"
    by (simp only: tail_def rstrip_semicolons_def rev_append)
  also have "\<dots> = t" by (simp only: takeWhile_dropWhile_id rev_rev_ident)
  finally have t: "t = rstrip_semicolons t @ tail" by simp
  have "\<forall>c \<in> set tail. c = CHR '';''"
    unfolding tail_def by (auto dest: set_takeWhileD)
  then have "replicate (length tail) CHR '';'' = tail"
    by (rule replicate_length_same)
  with t show ?thesis by metis
qed

lemma rstrip_semicolons_last:
  "rstrip_semicolons t = [] \<or> last (rstrip_semicolons t) \<noteq> CHR '';''"
proof (cases "dropWhile (\<lambda>c. c = CHR '';'') (rev t)")
  case Nil
  then show ?thesis by (simp add: rstrip_semicolons_def)
next
  case (Cons x xs)
  have "dropWhile (\<lambda>c. c = CHR '';'') (rev t) \<noteq> []" using Cons by simp
  from hd_dropWhile [OF this] Cons have "x \<noteq> CHR '';''" by simp
  with Cons show ?thesis by (simp add: rstrip_semicolons_def)
qed

text \<open>
  Claim C4 (as stated, refuted). A statement that ends in two semicolons passes all
  six checks, so the check does not strip exactly one terminator and reject on the
  other.
\<close>

theorem two_terminators_accepted:
  "validate_sql ''SELECT 1;;'' = Inr ''SELECT 1;;''"
  by code_simp

text \<open>
  Claim C4 (amended). For a candidate that passes the checks before it (not empty,
  \<^verbatim>\<open>SELECT\<close> or \<^verbatim>\<open>WITH\<close> first, no blocked pattern, balanced parentheses), the
  single-statement check takes every trailing semicolon off the trimmed text, leaving a
  body that does not end in one, and raises with \<open>MultipleStatements\<close> if and only if a
  semicolon is left in that body; otherwise the candidate is returned.
\<close>

theorem single_statement_check:
  assumes "strip s \<noteq> []"
    and "re_match ALLOWED_START (strip s)"
    and "first_blocked BLOCKED_PATTERNS (strip s) = None"
    and "balanced (strip s)"
  shows "(\<exists>n. strip s = rstrip_semicolons (strip s) @ replicate n CHR '';'')
    \<and> (rstrip_semicolons (strip s) = [] \<or> last (rstrip_semicolons (strip s)) \<noteq> CHR '';'')
    \<and> validate_sql s =
        (if CHR '';'' \<in> set (rstrip_semicolons (strip s)) then
           Inl (SQLValidationError MultipleStatements
             ''Multiple SQL statements are not allowed. Only single queries are permitted.'')
         else Inr s)"
proof -
  from assms(1) have "s \<noteq> []" by (auto simp: strip_def rstrip_def lstrip_def)
  with assms have "validate_sql s =
        (if CHR '';'' \<in> set (rstrip_semicolons (strip s)) then
           Inl (SQLValidationError MultipleStatements
             ''Multiple SQL statements are not allowed. Only single queries are permitted.'')
         else Inr s)"
    by (simp add: validate_sql_def Let_def without_trailing_def semicolon_in_strip)
  with rstrip_semicolons_decomp [of "strip s"] rstrip_semicolons_last [of "strip s"]
  show ?thesis by blast
qed

theorem single_statement_check_witness:
  "strip ''SELECT 1;SELECT 2;;'' \<noteq> []
   \<and> re_match ALLOWED_START (strip ''SELECT 1;SELECT 2;;'')
   \<and> first_blocked BLOCKED_PATTERNS (strip ''SELECT 1;SELECT 2;;'') = None
   \<and> balanced (strip ''SELECT 1;SELECT 2;;'')
   \<and> rstrip_semicolons (strip ''SELECT 1;SELECT 2;;'') = ''SELECT 1;SELECT 2''
   \<and> validate_sql ''SELECT 1;SELECT 2;;'' =
        Inl (SQLValidationError MultipleStatements
          ''Multiple SQL statements are not allowed. Only single queries are permitted.'')"
proof -
  have h1: "strip ''SELECT 1;SELECT 2;;'' \<noteq> []" by code_simp
  have h2: "re_match ALLOWED_START (strip ''SELECT 1;SELECT 2;;'')" by code_simp
  have h3: "first_blocked BLOCKED_PATTERNS (strip ''SELECT 1;SELECT 2;;'') = None"
    by code_simp
  have h4: "balanced (strip ''SELECT 1;SELECT 2;;'')" by code_simp
  have h5: "rstrip_semicolons (strip ''SELECT 1;SELECT 2;;'') = ''SELECT 1;SELECT 2''"
    by code_simp
  from single_statement_check [OF h1 h2 h3 h4] h1 h2 h3 h4 h5 show ?thesis by simp
qed

section \<open>The leading keyword\<close>

lemma code_range: "0 \<le> code c \<and> code c < 256"
proof -
  have "code c mod 256 = code c" by (simp add: code_def)
  moreover have "0 \<le> code c mod 256" and "code c mod 256 < 256" by simp_all
  ultimately show ?thesis by simp
qed




lemma rstrip_decomp: "t = rstrip t @ rev (takeWhile isspace (rev t))"
proof -
  have "rstrip t @ rev (takeWhile isspace (rev t)) =
          rev (takeWhile isspace (rev t) @ dropWhile isspace (rev t))"
    by (simp only: rstrip_def rev_append)
  also have "\<dots> = t" by (simp only: takeWhile_dropWhile_id rev_rev_ident)
  finally show ?thesis by simp
qed

lemma strip_decomp: "\<exists>w. lstrip s = strip s @ w \<and> list_all isspace w"
proof -
  have "list_all isspace (rev (takeWhile isspace (rev (lstrip s))))"
    by (simp add: list_all_iff) (meson set_takeWhileD)
  with rstrip_decomp [of "lstrip s"] show ?thesis
    unfolding strip_def by blast
qed

lemma lstrip_head: "lstrip s = [] \<or> \<not> isspace (hd (lstrip s))"
  unfolding lstrip_def using hd_dropWhile [of isspace s] by blast

lemma strip_head: "strip s = [] \<or> \<not> isspace (hd (strip s))"
proof -
  obtain w where w: "lstrip s = strip s @ w" using strip_decomp by blast
  show ?thesis
  proof (cases "strip s")
    case Nil then show ?thesis by simp
  next
    case (Cons x xs)
    with w have "hd (lstrip s) = x" "lstrip s \<noteq> []" by simp_all
    with lstrip_head [of s] Cons show ?thesis by simp
  qed
qed

lemma lstrip_strip: "lstrip (strip s) = strip s"
  using strip_head [of s] by (cases "strip s") (auto simp: lstrip_def)












section \<open>The intent guard\<close>

lemma any_alt_iff: "any_alt alts prev s = list_ex (\<lambda>p. rx_match p prev s) alts"
  by (induction alts) auto

lemma search_from_alternatives:
  "search_from alts prev s = list_ex (\<lambda>p. search_from [p] prev s) alts"
proof (induction s arbitrary: prev)
  case Nil
  then show ?case by (simp add: any_alt_iff)
next
  case (Cons x s)
  then show ?case by (auto simp: any_alt_iff list_ex_iff)
qed

lemma domain_pattern_keywords:
  "re_search DOMAIN_PATTERN q = list_ex (\<lambda>kw. re_search [kw] q) DOMAIN_KEYWORDS"
  unfolding re_search_def DOMAIN_PATTERN_def by (rule search_from_alternatives)

text \<open>
  Claim C6. For every question in which at least one of the domain keyword patterns
  matches somewhere, \<^verbatim>\<open>check_intent\<close> returns \<^verbatim>\<open>is_in_domain=True\<close> and makes no
  call to the classifier: its result does not depend on the classifier and its list
  of classifier calls is empty.
\<close>

theorem keyword_match_short_circuits:
  assumes "list_ex (\<lambda>kw. re_search [kw] q) DOMAIN_KEYWORDS"
  shows "check_intent chat q = (\<lparr>is_in_domain = True, rejection_message = None\<rparr>, [])"
  using assms by (simp add: check_intent_def domain_pattern_keywords)

theorem keyword_match_short_circuits_witness:
  "list_ex (\<lambda>kw. re_search [kw] ''Show me all employees'') DOMAIN_KEYWORDS
   \<and> check_intent (\<lambda>q. Inl (PyExc False ''APITimeoutError'' ''Request timed out.''))
        ''Show me all employees''
     = (\<lparr>is_in_domain = True, rejection_message = None\<rparr>, [])"
proof -
  have h: "list_ex (\<lambda>kw. re_search [kw] ''Show me all employees'') DOMAIN_KEYWORDS"
    by code_simp
  from keyword_match_short_circuits [OF h] h show ?thesis by simp
qed

text \<open>
  Claim C7. For every question without a domain keyword match: if the classifier call
  raises, or returns a reply whose trimmed, lower-cased text does not begin with
  \<^verbatim>\<open>yes\<close>, then \<^verbatim>\<open>check_intent\<close> returns \<^verbatim>\<open>is_in_domain=False\<close> with the one fixed
  rejection message, whatever the exception and whatever the reply.
\<close>

theorem classifier_failure_rejects:
  assumes "\<not> re_search DOMAIN_PATTERN q"
    and "(\<exists>ex. chat q = Inl ex)
         \<or> (\<exists>reply. chat q = Inr reply \<and> \<not> prefix ''yes'' (map lower (strip reply)))"
  shows "fst (check_intent chat q)
           = \<lparr>is_in_domain = False, rejection_message = Some REJECTION_MESSAGE\<rparr>"
  using assms by (auto simp: check_intent_def llm_classify_def)

theorem classifier_failure_rejects_witness:
  "\<not> re_search DOMAIN_PATTERN ''hello''
   \<and> fst (check_intent (\<lambda>q. Inl (PyExc False ''APITimeoutError'' ''Request timed out.''))
        ''hello'')
     = \<lparr>is_in_domain = False, rejection_message = Some REJECTION_MESSAGE\<rparr>
   \<and> \<not> prefix ''yes'' (map lower (strip '' No.''))
   \<and> fst (check_intent (\<lambda>q. Inr '' No.'') ''hello'')
     = \<lparr>is_in_domain = False, rejection_message = Some REJECTION_MESSAGE\<rparr>"
proof -
  have h: "\<not> re_search DOMAIN_PATTERN ''hello''" by code_simp
  have n: "\<not> prefix ''yes'' (map lower (strip '' No.''))" by code_simp
  from classifier_failure_rejects
      [of "''hello''" "\<lambda>q. Inl (PyExc False ''APITimeoutError'' ''Request timed out.'')"]
    classifier_failure_rejects [of "''hello''" "\<lambda>q. Inr '' No.''"] h n
  show ?thesis by simp
qed

section \<open>Schema retrieval\<close>

lemma scan_tables_all:
  assumes "\<forall>t \<in> set ts. \<exists>rows. cq t = Inr rows"
  shows "\<exists>out. scan_tables cq ts acc = Inr (acc @ out) \<and> map table out = ts"
  using assms
proof (induction ts arbitrary: acc)
  case Nil
  then show ?case by simp
next
  case (Cons t ts)
  then obtain rows where rows: "cq t = Inr rows" by auto
  from Cons.prems have "\<forall>t \<in> set ts. \<exists>rows. cq t = Inr rows" by simp
  from Cons.IH [OF this, of "acc @ [make_snippet t rows]"]
  obtain out where out: "scan_tables cq ts (acc @ [make_snippet t rows])
      = Inr ((acc @ [make_snippet t rows]) @ out)" "map table out = ts" by blast
  have "table (make_snippet t rows) = t"
    by (simp add: make_snippet_def split: prod.splits)
  with rows out show ?case
    by (intro exI [of _ "make_snippet t rows # out"]) simp
qed

text \<open>
  Claim C8 (as stated, refuted). With six tables in the catalog and \<^verbatim>\<open>top_k=5\<close>, six
  snippets come back: the bound is not enforced.
\<close>

theorem six_snippets_for_top_k_five:
  "map_sum id length (retrieve_relevant_schema six_tables ''show sales'' 5 (3 / 10)) = Inr 6"
  by code_simp

text \<open>
  Claim C8 (amended). For every catalog whose queries succeed,
  \<^verbatim>\<open>retrieve_relevant_schema\<close> returns one snippet for each table of the catalog, in
  the catalog's order, whatever \<^verbatim>\<open>top_k\<close> is: the number of snippets handed to the
  generator is the number of tables, not at most five.
\<close>

theorem retrieval_returns_every_table:
  assumes "tables_result cat = Inr ts"
    and "\<forall>t \<in> set ts. \<exists>rows. columns_result cat t = Inr rows"
  shows "\<exists>snippets. retrieve_relevant_schema cat q top_k min_sim = Inr snippets
           \<and> map table snippets = ts \<and> length snippets = length ts"
proof -
  from scan_tables_all [OF assms(2), of "[]"]
  obtain out where "scan_tables (columns_result cat) ts [] = Inr out" "map table out = ts"
    by auto
  moreover from this have "length out = length ts" by (metis length_map)
  ultimately show ?thesis using assms(1) by (simp add: retrieve_relevant_schema_def)
qed

theorem retrieval_returns_every_table_witness:
  "\<exists>snippets. retrieve_relevant_schema six_tables ''show sales'' 5 (3 / 10) = Inr snippets
     \<and> map table snippets = [''attendance'', ''departments'', ''employees'', ''products'',
                              ''sales'', ''suppliers'']
     \<and> length snippets = 6"
proof -
  have t: "tables_result six_tables = Inr [''attendance'', ''departments'', ''employees'',
      ''products'', ''sales'', ''suppliers'']"
    by (simp add: six_tables_def)
  have c: "\<forall>t \<in> set [''attendance'', ''departments'', ''employees'', ''products'',
      ''sales'', ''suppliers'']. \<exists>rows. columns_result six_tables t = Inr rows"
    by (simp add: six_tables_def)
  from retrieval_returns_every_table [OF t c, of "''show sales''" 5 "3 / 10"]
  show ?thesis by (simp add: eval_nat_numeral)
qed

section \<open>Exceptions of the generator\<close>

lemma only_generator_errors_propagate:
  assumes "snd (handle_query e rid req) = Inl ex"
  shows "\<not> is_ValueError ex
    \<and> (\<exists>snippets. generate_sql (generator e (strip (query req)) snippets) = Inl ex)"
proof -
  obtain intent calls where
    ci: "check_intent (classifier e) (strip (query req)) = (intent, calls)"
    by (cases "check_intent (classifier e) (strip (query req))")
  from assms ci show ?thesis
    by (auto simp: handle_query_def Let_def split: if_splits sum.splits prod.splits)
qed

lemma executor_error_is_reported:
  assumes "Execute s \<in> set (fst (handle_query e rid req))"
    and "database e s = Inl ex"
  shows "snd (handle_query e rid req) =
     Inr (ErrorResponse rid s (''Query execution failed: '' @ take 200 (message_text ex))
       ''There was an error executing your query. Please try rephrasing.'')"
proof -
  obtain intent calls where
    ci: "check_intent (classifier e) (strip (query req)) = (intent, calls)"
    by (cases "check_intent (classifier e) (strip (query req))")
  have calls: "calls = [] \<or> calls = [LLMClassify (strip (query req))]"
    using ci check_intent_calls [of "classifier e" "strip (query req)"] by simp
  from assms ci calls show ?thesis
    by (auto simp: handle_query_def Let_def execute_readonly_query_def
        split: if_splits sum.splits prod.splits)
qed

text \<open>
  Claim C2 (violated by the code). The call of the generator is guarded by
  \<^verbatim>\<open>except ValueError\<close> only: with a generator whose call raises a connection error,
  \<^verbatim>\<open>handle_query\<close> does not return a response; the exception leaves it.
\<close>

theorem generator_error_propagates:
  "handle_query unreachable_generator_env ''r1'' sample_request =
     ([CheckIntent ''top'' True, RetrieveSchema ''top'', GenerateSQL ''top''],
      Inl (PyExc False ''APIConnectionError'' ''Connection error.''))"
  by code_simp

section \<open>The cleaned statement\<close>

lemma rstrip_idem: "rstrip (rstrip t) = rstrip t"
  by (simp add: rstrip_def)

lemma strip_idem: "strip (strip s) = strip s"
proof -
  have "strip (strip s) = rstrip (strip s)" by (simp add: strip_def [of "strip s"] lstrip_strip)
  also have "\<dots> = strip s" by (simp add: strip_def rstrip_idem)
  finally show ?thesis .
qed

lemma generate_sql_cases:
  "generate_sql (Inr raw) =
     (if clean_sql raw = [] then
        Inl (PyExc True ''ValueError'' ''SQL generation failed - LLM returned empty response.'')
      else Inr (clean_sql raw))"
  by (simp add: generate_sql_def Let_def)

lemma clean_sql_trimmed: "strip (clean_sql raw) = clean_sql raw"
  by (simp add: clean_sql_def Let_def strip_idem)

text \<open>
  Claim C10 (violated by the code). For the reply \<^verbatim>\<open>SELECT 1; ;\<close> the generator's
  cleaning returns a statement that still ends with a semicolon: the trailing
  semicolons are removed once, before the last trimming of white space.
\<close>

theorem cleaned_sql_may_end_with_semicolon:
  "generate_sql (Inr ''SELECT 1; ;'') = Inr ''SELECT 1;''"
  by code_simp

end
